theory Spec2Isabelle
  imports Main "HOL-Library.Monad_Syntax"
begin

section \<open>JavaScript values\<close>

text \<open>
  The parsers of \<^verbatim>\<open>src/utils/const.js\<close> and \<^verbatim>\<open>src/utils/parseWithWebWorker.js\<close>
  work on the values that \<^verbatim>\<open>JSON.parse\<close> produces and on \<^verbatim>\<open>undefined\<close>.
  A string is its list of Unicode code points (a surrogate value in the list is a lone
  surrogate); an object is its list of properties in insertion order.
  A finite number is a decimal \<open>Dec m e\<close>, the value of \<open>m\<close> times ten to the power \<open>e\<close>, kept exactly: in normal form
  \<open>m\<close> is not divisible by ten, and zero is \<open>Dec 0 0\<close>. The program never calculates with
  numbers; it tests whether they are truthy, prints them and converts to them.
  A computation that throws has the value \<open>None\<close>.
\<close>

type_synonym ustring = "nat list"

datatype jsnum = Dec int int | PosInf | NegInf | NaN

definition U :: "string \<Rightarrow> ustring" where
  "U s = map of_char s"

datatype jsval =
    Undefined
  | Null
  | Bool bool
  | Num jsnum
  | Str ustring
  | Arr "jsval list"
  | Obj "(ustring \<times> jsval) list"

fun truthy :: "jsval \<Rightarrow> bool" where
  "truthy Undefined = False"
| "truthy Null = False"
| "truthy (Bool b) = b"
| "truthy (Num n) = (case n of Dec m e \<Rightarrow> m \<noteq> 0 | NaN \<Rightarrow> False | _ \<Rightarrow> True)"
| "truthy (Str s) = (s \<noteq> [])"
| "truthy (Arr xs) = True"
| "truthy (Obj kvs) = True"

fun typeof :: "jsval \<Rightarrow> string" where
  "typeof Undefined = ''undefined''"
| "typeof Null = ''object''"
| "typeof (Bool b) = ''boolean''"
| "typeof (Num n) = ''number''"
| "typeof (Str s) = ''string''"
| "typeof (Arr xs) = ''object''"
| "typeof (Obj kvs) = ''object''"

fun isArray :: "jsval \<Rightarrow> bool" where
  "isArray (Arr xs) = True"
| "isArray v = False"

text \<open>
  Reading a property: a TypeError on \<^verbatim>\<open>undefined\<close> and \<^verbatim>\<open>null\<close>, the own property of
  an object, and \<^verbatim>\<open>undefined\<close> otherwise. The program reads only data property names
  (\<^verbatim>\<open>e\<close>, \<^verbatim>\<open>data\<close>, \<^verbatim>\<open>schema\<close>, ...), none of which is inherited from a prototype.
\<close>

fun getp :: "jsval \<Rightarrow> string \<Rightarrow> jsval option" where
  "getp Undefined k = None"
| "getp Null k = None"
| "getp (Obj kvs) k = Some (case map_of kvs (U k) of Some v \<Rightarrow> v | None \<Rightarrow> Undefined)"
| "getp v k = Some Undefined"

text \<open>\<^verbatim>\<open>a || b\<close> and \<^verbatim>\<open>a && b\<close>: the right operand is evaluated only when needed.\<close>

definition js_or :: "jsval option \<Rightarrow> jsval option \<Rightarrow> jsval option" where
  "js_or a b = do { x \<leftarrow> a; if truthy x then Some x else b }"

definition js_and :: "jsval option \<Rightarrow> jsval option \<Rightarrow> jsval option" where
  "js_and a b = do { x \<leftarrow> a; if truthy x then b else Some x }"

text \<open>An object literal: a later property of the same name replaces the value in place.\<close>

fun obj_set :: "(ustring \<times> jsval) list \<Rightarrow> ustring \<Rightarrow> jsval \<Rightarrow> (ustring \<times> jsval) list" where
  "obj_set [] k v = [(k, v)]"
| "obj_set ((k', v') # kvs) k v =
     (if k' = k then (k, v) # kvs else (k', v') # obj_set kvs k v)"

definition mk_obj :: "(string \<times> jsval) list \<Rightarrow> jsval" where
  "mk_obj kvs = Obj (foldl (\<lambda>acc (k, v). obj_set acc (U k) v) [] kvs)"

section \<open>Strings\<close>

definition is_trim_ws :: "nat \<Rightarrow> bool" where
  "is_trim_ws c \<longleftrightarrow>
     c = 9 \<or> c = 10 \<or> c = 11 \<or> c = 12 \<or> c = 13 \<or> c = 32 \<or> c = 160 \<or> c = 5760 \<or>
     (8192 \<le> c \<and> c \<le> 8202) \<or> c = 8232 \<or> c = 8233 \<or> c = 8239 \<or> c = 8287 \<or>
     c = 12288 \<or> c = 65279"

definition trim :: "ustring \<Rightarrow> ustring" where
  "trim s = rev (dropWhile is_trim_ws (rev (dropWhile is_trim_ws s)))"

definition startsWith :: "ustring \<Rightarrow> string \<Rightarrow> bool" where
  "startsWith s p \<longleftrightarrow> take (length p) s = U p"

definition endsWith :: "ustring \<Rightarrow> string \<Rightarrow> bool" where
  "endsWith s p \<longleftrightarrow> length p \<le> length s \<and> drop (length s - length p) s = U p"

text \<open>\<^verbatim>\<open>s.length\<close> counts UTF-16 code units.\<close>

definition js_length :: "ustring \<Rightarrow> nat" where
  "js_length s = sum_list (map (\<lambda>c. if 65536 \<le> c then 2 else 1) s)"

text \<open>\<^verbatim>\<open>s.replace(/c/g, d)\<close> for a single character.\<close>

definition replace_all :: "char \<Rightarrow> char \<Rightarrow> ustring \<Rightarrow> ustring" where
  "replace_all c d s = map (\<lambda>x. if x = of_char c then of_char d else x) s"

function show_nat :: "nat \<Rightarrow> ustring" where
  "show_nat n = (if n < 10 then [48 + n] else show_nat (n div 10) @ [48 + n mod 10])"
  by pat_completeness auto
termination
  by (relation "measure id") auto

definition show_int :: "int \<Rightarrow> ustring" where
  "show_int i = (if i < 0 then 45 # show_nat (nat (- i)) else show_nat (nat i))"

text \<open>The normal form of a decimal, and an integer as a number value.\<close>

function dec_norm :: "int \<Rightarrow> int \<Rightarrow> jsnum" where
  "dec_norm m e =
     (if m = 0 then Dec 0 0
      else if m mod 10 = 0 then dec_norm (m div 10) (e + 1)
      else Dec m e)"
  by pat_completeness auto
termination
  by (relation "measure (\<lambda>(m, e). nat \<bar>m\<bar>)") auto

definition num :: "int \<Rightarrow> jsval" where
  "num i = Num (dec_norm i 0)"

text \<open>
  \<^verbatim>\<open>Number::toString\<close>: with \<open>k\<close> digits and the decimal point after the \<open>n\<close>-th, plain
  digits for \<open>k \<le> n \<le> 21\<close>, a decimal point inside for \<open>0 < n \<le> 21\<close>, leading zeros for
  \<open>-6 < n \<le> 0\<close>, and the exponent form otherwise.
\<close>

definition show_num :: "jsnum \<Rightarrow> ustring" where
  "show_num x =
     (case x of
        NaN \<Rightarrow> U ''NaN''
      | PosInf \<Rightarrow> U ''Infinity''
      | NegInf \<Rightarrow> U ''-Infinity''
      | Dec m e \<Rightarrow>
          (if m = 0 then [48]
           else
             (let ds = show_nat (nat \<bar>m\<bar>);
                  k = int (length ds);
                  n = k + e;
                  body =
                    (if k \<le> n \<and> n \<le> 21 then ds @ replicate (nat (n - k)) 48
                     else if 0 < n \<and> n \<le> 21 then take (nat n) ds @ 46 # drop (nat n) ds
                     else if - 6 < n \<and> n \<le> 0 then 48 # 46 # replicate (nat (- n)) 48 @ ds
                     else
                       (let ex = (if n - 1 < 0 then 45 else 43) # show_nat (nat \<bar>n - 1\<bar>)
                        in if k = 1 then ds @ 101 # ex
                           else take 1 ds @ 46 # drop 1 ds @ 101 # ex))
              in if m < 0 then 45 # body else body)))"

fun join :: "ustring \<Rightarrow> ustring list \<Rightarrow> ustring" where
  "join sep [] = []"
| "join sep [x] = x"
| "join sep (x # y # ys) = x @ sep @ join sep (y # ys)"

text \<open>
  \<^verbatim>\<open>ToString\<close>. An object whose own \<^verbatim>\<open>toString\<close> property shadows the inherited method
  with a value that is not callable has no primitive value: the conversion throws a
  TypeError. \<^verbatim>\<open>Array.prototype.join\<close> converts \<^verbatim>\<open>null\<close> and \<^verbatim>\<open>undefined\<close> to the
  empty string.
\<close>

fun ToString :: "jsval \<Rightarrow> ustring option" where
  "ToString Undefined = Some (U ''undefined'')"
| "ToString Null = Some (U ''null'')"
| "ToString (Bool b) = Some (if b then U ''true'' else U ''false'')"
| "ToString (Num n) = Some (show_num n)"
| "ToString (Str s) = Some s"
| "ToString (Arr xs) =
     map_option (join (U '',''))
       (those (map (\<lambda>x. if x = Undefined \<or> x = Null then Some [] else ToString x) xs))"
| "ToString (Obj kvs) =
     (if U ''toString'' \<in> fst ` set kvs then None else Some (U ''[object Object]''))"

section \<open>The platform\<close>

text \<open>
  What the program takes from its environment: the clock (\<^verbatim>\<open>Date.now()\<close>, one reading
  for each position of the array being parsed), the number that \<^verbatim>\<open>Number(v)\<close> yields
  when the conversion returns, and which optional globals exist.
\<close>

record env =
  now :: "nat \<Rightarrow> int"
  numeric :: "jsval \<Rightarrow> jsval"
  hasWorker :: bool
  hasTextEncoder :: bool
  hasTextDecoder :: bool
  hasAtob :: bool

text \<open>
  \<^verbatim>\<open>Number(v)\<close> converts an object to a primitive first (\<^verbatim>\<open>valueOf\<close>, then
  \<^verbatim>\<open>toString\<close>), and throws a TypeError exactly when \<^verbatim>\<open>ToString\<close> does.
\<close>

definition Number :: "env \<Rightarrow> jsval \<Rightarrow> jsval option" where
  "Number E v = (case ToString v of None \<Rightarrow> None | Some s \<Rightarrow> Some (numeric E v))"

subsection \<open>atob: forgiving base64 decoding\<close>

definition b64val :: "nat \<Rightarrow> nat option" where
  "b64val c =
     (if 65 \<le> c \<and> c \<le> 90 then Some (c - 65)
      else if 97 \<le> c \<and> c \<le> 122 then Some (c - 71)
      else if 48 \<le> c \<and> c \<le> 57 then Some (c + 4)
      else if c = 43 then Some 62
      else if c = 47 then Some 63
      else None)"

fun sextets_to_bytes :: "nat list \<Rightarrow> nat list" where
  "sextets_to_bytes (a # b # c # d # r) =
     (a * 4 + b div 16) # ((b mod 16) * 16 + c div 4) # ((c mod 4) * 64 + d) # sextets_to_bytes r"
| "sextets_to_bytes [a, b, c] = [a * 4 + b div 16, (b mod 16) * 16 + c div 4]"
| "sextets_to_bytes [a, b] = [a * 4 + b div 16]"
| "sextets_to_bytes r = []"

definition is_ascii_ws :: "nat \<Rightarrow> bool" where
  "is_ascii_ws c \<longleftrightarrow> c = 9 \<or> c = 10 \<or> c = 12 \<or> c = 13 \<or> c = 32"

definition strip_padding :: "ustring \<Rightarrow> ustring" where
  "strip_padding s =
     (if length s mod 4 = 0 \<and> s \<noteq> [] \<and> last s = 61
      then (if butlast s \<noteq> [] \<and> last (butlast s) = 61 then butlast (butlast s) else butlast s)
      else s)"

definition atob :: "ustring \<Rightarrow> ustring option" where
  "atob s =
     (let d = strip_padding (filter (\<lambda>c. \<not> is_ascii_ws c) s) in
      if length d mod 4 = 1 then None
      else map_option sextets_to_bytes (those (map b64val d)))"

subsection \<open>UTF-8\<close>

text \<open>\<^verbatim>\<open>TextEncoder\<close>: a lone surrogate is encoded as U+FFFD.\<close>

definition utf8_encode_cp :: "nat \<Rightarrow> nat list" where
  "utf8_encode_cp c =
     (if c < 128 then [c]
      else if c < 2048 then [192 + c div 64, 128 + c mod 64]
      else if 55296 \<le> c \<and> c \<le> 57343 then [239, 191, 189]
      else if c < 65536 then [224 + c div 4096, 128 + (c div 64) mod 64, 128 + c mod 64]
      else [240 + c div 262144, 128 + (c div 4096) mod 64, 128 + (c div 64) mod 64, 128 + c mod 64])"

definition utf8_encode :: "ustring \<Rightarrow> nat list" where
  "utf8_encode s = concat (map utf8_encode_cp s)"

text \<open>
  One well-formed UTF-8 sequence at the head of a byte list: the code point and the
  rest, or \<open>None\<close> (overlong forms, surrogates and values above U+10FFFF are ill-formed).
\<close>

definition is_cont :: "nat \<Rightarrow> bool" where
  "is_cont b \<longleftrightarrow> 128 \<le> b \<and> b \<le> 191"

fun utf8_seq :: "nat list \<Rightarrow> (nat \<times> nat list) option" where
  "utf8_seq [] = None"
| "utf8_seq (b # r) =
     (if b < 128 then Some (b, r)
      else if 194 \<le> b \<and> b \<le> 223 then
        (case r of b1 # r1 \<Rightarrow>
           if is_cont b1 then Some ((b - 192) * 64 + (b1 - 128), r1) else None
         | _ \<Rightarrow> None)
      else if 224 \<le> b \<and> b \<le> 239 then
        (case r of b1 # b2 # r2 \<Rightarrow>
           if (if b = 224 then 160 else 128) \<le> b1 \<and> b1 \<le> (if b = 237 then 159 else 191) \<and> is_cont b2
           then Some ((b - 224) * 4096 + (b1 - 128) * 64 + (b2 - 128), r2) else None
         | _ \<Rightarrow> None)
      else if 240 \<le> b \<and> b \<le> 244 then
        (case r of b1 # b2 # b3 # r3 \<Rightarrow>
           if (if b = 240 then 144 else 128) \<le> b1 \<and> b1 \<le> (if b = 244 then 143 else 191)
              \<and> is_cont b2 \<and> is_cont b3
           then Some ((b - 240) * 262144 + (b1 - 128) * 4096 + (b2 - 128) * 64 + (b3 - 128), r3)
           else None
         | _ \<Rightarrow> None)
      else None)"


text \<open>
  \<^verbatim>\<open>decodeURIComponent\<close>: an escape \<^verbatim>\<open>%hh\<close> is a byte; a byte above 127 starts a sequence
  whose other bytes must be escapes too, and the sequence must be well-formed UTF-8;
  anything else is a URIError.
\<close>

definition hexval :: "nat \<Rightarrow> nat option" where
  "hexval c =
     (if 48 \<le> c \<and> c \<le> 57 then Some (c - 48)
      else if 97 \<le> c \<and> c \<le> 102 then Some (c - 87)
      else if 65 \<le> c \<and> c \<le> 70 then Some (c - 55)
      else None)"

definition pct_byte :: "ustring \<Rightarrow> nat option" where
  "pct_byte s =
     (case s of
        p # h1 # h2 # r \<Rightarrow>
          (if p = 37 then
             (case (hexval h1, hexval h2) of
                (Some a, Some b) \<Rightarrow> Some (a * 16 + b)
              | _ \<Rightarrow> None)
           else None)
      | _ \<Rightarrow> None)"

definition seq_len :: "nat \<Rightarrow> nat" where
  "seq_len b =
     (if b < 128 then 1 else if b < 192 then 0 else if b < 224 then 2
      else if b < 240 then 3 else if b < 248 then 4 else 0)"

fun decodeURIComponent :: "ustring \<Rightarrow> ustring option" where
  "decodeURIComponent [] = Some []"
| "decodeURIComponent (c # r) =
     (if c \<noteq> 37 then map_option (Cons c) (decodeURIComponent r)
      else
        (case pct_byte (c # r) of
           None \<Rightarrow> None
         | Some b \<Rightarrow>
             (if seq_len b = 0 then None
              else
                (case those (map (\<lambda>j. pct_byte (drop (3 * j) (c # r))) [1..<seq_len b]) of
                   None \<Rightarrow> None
                 | Some bs \<Rightarrow>
                     (case utf8_seq (b # bs) of
                        Some (cp, []) \<Rightarrow>
                          map_option (Cons cp) (decodeURIComponent (drop (3 * seq_len b - 1) r))
                      | _ \<Rightarrow> None)))))"

definition hexdigit :: "nat \<Rightarrow> nat" where
  "hexdigit d = (if d < 10 then 48 + d else 87 + d)"

text \<open>\<^verbatim>\<open>'%' + ('00' + code.toString(16)).slice(-2)\<close>\<close>

definition percent_encode_byte :: "nat \<Rightarrow> ustring" where
  "percent_encode_byte b = [37, hexdigit ((b div 16) mod 16), hexdigit (b mod 16)]"

text \<open>
  \<^verbatim>\<open>new TextDecoder().decode(bytes)\<close>: the decoder of the Encoding Standard. An
  ill-formed sequence becomes U+FFFD, the byte that ended it is read again, and a
  leading byte order mark is dropped. The state is the code point so far, the number of
  bytes still needed and the bounds of the next byte.
\<close>

fun td_decode :: "nat \<times> nat \<times> nat \<times> nat \<Rightarrow> nat list \<Rightarrow> ustring" where
  "td_decode (cp, need, lo, hi) [] = (if need \<noteq> 0 then [65533] else [])"
| "td_decode (cp, need, lo, hi) (b # bs) =
     (if need \<noteq> 0 \<and> lo \<le> b \<and> b \<le> hi then
        (if need = 1 then (cp * 64 + (b - 128)) # td_decode (0, 0, 128, 191) bs
         else td_decode (cp * 64 + (b - 128), need - 1, 128, 191) bs)
      else
        (if need \<noteq> 0 then [65533] else []) @
        (if b < 128 then b # td_decode (0, 0, 128, 191) bs
         else if 194 \<le> b \<and> b \<le> 223 then td_decode (b - 192, 1, 128, 191) bs
         else if 224 \<le> b \<and> b \<le> 239 then
           td_decode (b - 224, 2, if b = 224 then 160 else 128, if b = 237 then 159 else 191) bs
         else if 240 \<le> b \<and> b \<le> 244 then
           td_decode (b - 240, 3, if b = 240 then 144 else 128, if b = 244 then 143 else 191) bs
         else 65533 # td_decode (0, 0, 128, 191) bs))"

definition TextDecoder_decode :: "nat list \<Rightarrow> ustring" where
  "TextDecoder_decode bs =
     (case td_decode (0, 0, 128, 191) bs of
        c # r \<Rightarrow> if c = 65279 then r else c # r
      | [] \<Rightarrow> [])"

subsection \<open>JSON.parse\<close>

fun skip_ws :: "ustring \<Rightarrow> ustring" where
  "skip_ws [] = []"
| "skip_ws (c # cs) = (if c = 32 \<or> c = 9 \<or> c = 10 \<or> c = 13 then skip_ws cs else c # cs)"

definition is_digit :: "nat \<Rightarrow> bool" where
  "is_digit c \<longleftrightarrow> 48 \<le> c \<and> c \<le> 57"

definition digits_val :: "ustring \<Rightarrow> int" where
  "digits_val ds = foldl (\<lambda>a d. 10 * a + (int d - 48)) 0 ds"

text \<open>
  A number token, \<^verbatim>\<open>-?(0|[1-9][0-9]*)(\.[0-9]+)?([eE][+-]?[0-9]+)?\<close>; a further digit
  after a leading zero can start no token. Its value is \<open>m\<close> times ten to the power \<open>e\<close>, for
  the digits \<open>m\<close> and \<open>e\<close> the exponent less the number of fraction digits. As a double it is zero up to half the
  least subnormal, infinite from half way between the largest double and \<open>2 ^ 1024\<close>, and is
  kept exactly in between (the embedding does not round to 53 bits).
\<close>

definition to_double :: "int \<Rightarrow> int \<Rightarrow> jsnum" where
  "to_double m e =
     (if m = 0 then Dec 0 0
      else if (if 0 \<le> e then 2 ^ 1024 - 2 ^ 970 \<le> \<bar>m\<bar> * 10 ^ nat e
               else (2 ^ 1024 - 2 ^ 970) * 10 ^ nat (- e) \<le> \<bar>m\<bar>)
      then (if m < 0 then NegInf else PosInf)
      else if e < 0 \<and> \<bar>m\<bar> * 2 ^ 1075 \<le> 10 ^ nat (- e) then Dec 0 0
      else dec_norm m e)"

definition parse_number :: "ustring \<Rightarrow> (jsval \<times> ustring) option" where
  "parse_number s =
     (let neg = (s \<noteq> [] \<and> hd s = 45);
          r = (if neg then tl s else s);
          ds = takeWhile is_digit r;
          r1 = dropWhile is_digit r;
          has_frac = (r1 \<noteq> [] \<and> hd r1 = 46);
          fs = (if has_frac then takeWhile is_digit (tl r1) else []);
          r2 = (if has_frac then dropWhile is_digit (tl r1) else r1);
          has_exp = (r2 \<noteq> [] \<and> (hd r2 = 101 \<or> hd r2 = 69));
          r3 = (if has_exp then tl r2 else r2);
          exp_neg = (has_exp \<and> r3 \<noteq> [] \<and> hd r3 = 45);
          r4 = (if has_exp \<and> r3 \<noteq> [] \<and> (hd r3 = 45 \<or> hd r3 = 43) then tl r3 else r3);
          es = (if has_exp then takeWhile is_digit r4 else []);
          rest = (if has_exp then dropWhile is_digit r4 else r2);
          m = digits_val (ds @ fs);
          ex = digits_val es
      in if ds = [] then None
         else if 1 < length ds \<and> hd ds = 48 then None
         else if has_frac \<and> fs = [] then None
         else if has_exp \<and> es = [] then None
         else Some (Num (to_double (if neg then - m else m)
                           ((if exp_neg then - ex else ex) - int (length fs))), rest))"

text \<open>The characters of a string token after its opening quote, as UTF-16 code units
  where an escape \<^verbatim>\<open>\uXXXX\<close> gives one.\<close>

fun parse_chars :: "ustring \<Rightarrow> (ustring \<times> ustring) option" where
  "parse_chars [] = None"
| "parse_chars (c # cs) =
     (if c = 34 then Some ([], cs)
      else if c = 92 then
        (case cs of
           [] \<Rightarrow> None
         | e # r \<Rightarrow>
             (if e = 117 then
                (case those (map hexval (take 4 r)) of
                   Some [a, b, c', d] \<Rightarrow>
                     map_option (apfst (Cons (a * 4096 + b * 256 + c' * 16 + d)))
                       (parse_chars (drop 4 r))
                 | _ \<Rightarrow> None)
              else
                (case (if e = 34 then Some 34 else if e = 92 then Some 92
                       else if e = 47 then Some 47 else if e = 98 then Some 8
                       else if e = 102 then Some 12 else if e = 110 then Some 10
                       else if e = 114 then Some 13 else if e = 116 then Some 9
                       else None) of
                   None \<Rightarrow> None
                 | Some x \<Rightarrow> map_option (apfst (Cons x)) (parse_chars r))))
      else if c < 32 then None
      else map_option (apfst (Cons c)) (parse_chars cs))"

text \<open>A high surrogate followed by a low surrogate is one code point.\<close>

fun combine_surrogates :: "ustring \<Rightarrow> ustring" where
  "combine_surrogates (h # l # r) =
     (if 55296 \<le> h \<and> h \<le> 56319 \<and> 56320 \<le> l \<and> l \<le> 57343
      then (65536 + (h - 55296) * 1024 + (l - 56320)) # combine_surrogates r
      else h # combine_surrogates (l # r))"
| "combine_surrogates s = s"

text \<open>
  The recursive descent has fuel, one unit for every nesting level and every further
  element; \<open>JSON_parse\<close> gives it more than a text of its length can use.
\<close>

fun parse_value :: "nat \<Rightarrow> ustring \<Rightarrow> (jsval \<times> ustring) option"
  and parse_elems :: "nat \<Rightarrow> ustring \<Rightarrow> (jsval list \<times> ustring) option"
  and parse_members :: "nat \<Rightarrow> ustring \<Rightarrow> ((ustring \<times> jsval) list \<times> ustring) option"
where
  "parse_value 0 s = None"
| "parse_value (Suc n) s =
     (case s of
        [] \<Rightarrow> None
      | c # r \<Rightarrow>
          (if c = 34 then
             map_option (apfst (\<lambda>cs. Str (combine_surrogates cs))) (parse_chars r)
           else if c = 91 then
             (case skip_ws r of
                [] \<Rightarrow> None
              | d # r' \<Rightarrow>
                  if d = 93 then Some (Arr [], r')
                  else map_option (apfst Arr) (parse_elems n (d # r')))
           else if c = 123 then
             (case skip_ws r of
                [] \<Rightarrow> None
              | d # r' \<Rightarrow>
                  if d = 125 then Some (Obj [], r')
                  else map_option
                         (apfst (\<lambda>kvs. Obj (foldl (\<lambda>acc (k, v). obj_set acc k v) [] kvs)))
                         (parse_members n (d # r')))
           else if take 4 s = U ''true'' then Some (Bool True, drop 4 s)
           else if take 5 s = U ''false'' then Some (Bool False, drop 5 s)
           else if take 4 s = U ''null'' then Some (Null, drop 4 s)
           else parse_number s))"
| "parse_elems 0 s = None"
| "parse_elems (Suc n) s =
     (case parse_value (Suc n) s of
        None \<Rightarrow> None
      | Some (v, r) \<Rightarrow>
          (case skip_ws r of
             [] \<Rightarrow> None
           | d # r' \<Rightarrow>
               if d = 44 then
                 map_option (apfst (Cons v)) (parse_elems n (skip_ws r'))
               else if d = 93 then Some ([v], r')
               else None))"
| "parse_members 0 s = None"
| "parse_members (Suc n) s =
     (case s of
        [] \<Rightarrow> None
      | q # r \<Rightarrow>
          (if q \<noteq> 34 then None
           else
             (case parse_chars r of
                None \<Rightarrow> None
              | Some (k, r1) \<Rightarrow>
                  (case skip_ws r1 of
                     [] \<Rightarrow> None
                   | d # r2 \<Rightarrow>
                       (if d \<noteq> 58 then None
                        else
                          (case parse_value (Suc n) (skip_ws r2) of
                             None \<Rightarrow> None
                           | Some (v, r3) \<Rightarrow>
                               (case skip_ws r3 of
                                  [] \<Rightarrow> None
                                | e # r4 \<Rightarrow>
                                    if e = 44 then
                                      map_option (apfst (Cons (combine_surrogates k, v)))
                                        (parse_members n (skip_ws r4))
                                    else if e = 125 then Some ([(combine_surrogates k, v)], r4)
                                    else None)))))))"

definition JSON_parse :: "ustring \<Rightarrow> jsval option" where
  "JSON_parse s =
     (case parse_value (Suc (length s)) (skip_ws s) of
        None \<Rightarrow> None
      | Some (v, r) \<Rightarrow> if skip_ws r = [] then Some v else None)"

subsection \<open>JSON.stringify\<close>

definition quote_char :: "nat \<Rightarrow> ustring" where
  "quote_char c =
     (if c = 34 then [92, 34]
      else if c = 92 then [92, 92]
      else if c = 8 then [92, 98]
      else if c = 12 then [92, 102]
      else if c = 10 then [92, 110]
      else if c = 13 then [92, 114]
      else if c = 9 then [92, 116]
      else if c < 32 \<or> (55296 \<le> c \<and> c \<le> 57343) then
        [92, 117, hexdigit (c div 4096), hexdigit ((c div 256) mod 16),
         hexdigit ((c div 16) mod 16), hexdigit (c mod 16)]
      else [c])"

definition quote :: "ustring \<Rightarrow> ustring" where
  "quote s = 34 # concat (map quote_char s) @ [34]"

text \<open>\<open>None\<close> is the result \<^verbatim>\<open>undefined\<close>: an array prints it as \<^verbatim>\<open>null\<close>, an object
  leaves the property out.\<close>

fun JSON_stringify :: "jsval \<Rightarrow> ustring option" where
  "JSON_stringify Undefined = None"
| "JSON_stringify Null = Some (U ''null'')"
| "JSON_stringify (Bool b) = Some (if b then U ''true'' else U ''false'')"
| "JSON_stringify (Num n) =
     Some (case n of Dec m e \<Rightarrow> show_num n | _ \<Rightarrow> U ''null'')"
| "JSON_stringify (Str s) = Some (quote s)"
| "JSON_stringify (Arr xs) =
     Some (91 # join [44]
             (map (\<lambda>x. case JSON_stringify x of None \<Rightarrow> U ''null'' | Some s \<Rightarrow> s) xs) @ [93])"
| "JSON_stringify (Obj kvs) =
     Some (123 # join [44]
             (concat (map (\<lambda>kv. case JSON_stringify (snd kv) of
                                   None \<Rightarrow> []
                                 | Some s \<Rightarrow> [quote (fst kv) @ 58 # s]) kvs)) @ [125])"


section \<open>src/utils/const.js\<close>

text \<open>\<^verbatim>\<open>/^[A-Za-z0-9\-_]+=*$/.test(t)\<close>\<close>

definition is_b64url_char :: "nat \<Rightarrow> bool" where
  "is_b64url_char c \<longleftrightarrow>
     (65 \<le> c \<and> c \<le> 90) \<or> (97 \<le> c \<and> c \<le> 122) \<or> (48 \<le> c \<and> c \<le> 57) \<or> c = 45 \<or> c = 95"

definition matches_base64_re :: "ustring \<Rightarrow> bool" where
  "matches_base64_re t \<longleftrightarrow>
     takeWhile is_b64url_char t \<noteq> [] \<and> list_all (\<lambda>c. c = 61) (dropWhile is_b64url_char t)"

definition isLikelyBase64 :: "jsval \<Rightarrow> bool" where
  "isLikelyBase64 s =
     (case s of
        Str x \<Rightarrow> (let t = trim x in if js_length t < 8 then False else matches_base64_re t)
      | _ \<Rightarrow> False)"

definition isLikelyJsonString :: "jsval \<Rightarrow> bool" where
  "isLikelyJsonString s =
     (case s of
        Str x \<Rightarrow> (let t = trim x in startsWith t ''{'' \<or> startsWith t ''['')
      | _ \<Rightarrow> False)"

text \<open>\<^verbatim>\<open>JSON.parse\<close> converts its argument to a string first; every exception is caught.\<close>

definition tryParseJsonSafe :: "jsval \<Rightarrow> jsval" where
  "tryParseJsonSafe s =
     (case ToString s of
        None \<Rightarrow> Null
      | Some t \<Rightarrow> (case JSON_parse t of None \<Rightarrow> Null | Some v \<Rightarrow> v))"

definition binaryStringToUtf8 :: "env \<Rightarrow> ustring \<Rightarrow> ustring option" where
  "binaryStringToUtf8 E bin =
     (if hasTextDecoder E then Some (TextDecoder_decode (map (\<lambda>c. c mod 256) bin))
      else decodeURIComponent (concat (map percent_encode_byte bin)))"

text \<open>\<^verbatim>\<open>while (t.length % 4) t += '='\<close>\<close>

lemma js_length_snoc: "js_length (t @ [61]) = Suc (js_length t)"
  by (simp add: js_length_def)

lemma pad_step: "m < 4 \<Longrightarrow> m \<noteq> 0 \<Longrightarrow> (4 - (if Suc m = 4 then 0 else Suc m)) mod 4 < (4 - m) mod (4::nat)"
proof -
  assume "m < 4" "m \<noteq> 0"
  then have "m = 1 \<or> m = 2 \<or> m = 3" by linarith
  then show ?thesis by auto
qed

lemma pad_measure: "(n::nat) mod 4 \<noteq> 0 \<Longrightarrow> (4 - Suc n mod 4) mod 4 < (4 - n mod 4) mod 4"
  using pad_step[of "n mod 4"] by (simp add: mod_Suc)

function pad4 :: "ustring \<Rightarrow> ustring" where
  "pad4 t = (if js_length t mod 4 \<noteq> 0 then pad4 (t @ [61]) else t)"
  by pat_completeness auto
termination
  apply (relation "measure (\<lambda>t. (4 - js_length t mod 4) mod 4)")
   apply (rule wf_measure)
  apply (simp only: in_measure js_length_snoc)
  apply (erule pad_measure)
  done

definition tryDecodeBase64JsonSafe :: "env \<Rightarrow> jsval \<Rightarrow> jsval" where
  "tryDecodeBase64JsonSafe E b64 =
     (case b64 of
        Str s \<Rightarrow>
          (if js_length s = 0 then Null
           else
             (let t = pad4 (replace_all CHR ''_'' CHR ''/'' (replace_all CHR ''-'' CHR ''+'' s)) in
              case (if hasAtob E then atob t else Some []) of
                None \<Rightarrow> Null
              | Some bin \<Rightarrow>
                  (if bin = [] then Null
                   else
                     (case binaryStringToUtf8 E bin of
                        None \<Rightarrow> Null
                      | Some txt \<Rightarrow> tryParseJsonSafe (Str txt)))))
      | _ \<Rightarrow> Null)"

definition tryNormalize :: "env \<Rightarrow> jsval \<Rightarrow> jsval" where
  "tryNormalize E cand =
     (if cand = Undefined \<or> cand = Null then Null
      else if typeof cand = ''object'' then cand
      else if typeof cand \<noteq> ''string'' then Null
      else if isLikelyJsonString cand then
        (let p = tryParseJsonSafe cand in
         if truthy p then p
         else (let p2 = tryDecodeBase64JsonSafe E cand in if truthy p2 then p2 else Null))
      else if isLikelyBase64 cand then
        (let p = tryDecodeBase64JsonSafe E cand in
         if truthy p then p else tryParseJsonSafe cand)
      else tryParseJsonSafe cand)"

text \<open>The fields every event record carries; \<open>i\<close> is the position of the event in its
  batch, which selects the clock reading.\<close>

definition common :: "env \<Rightarrow> nat \<Rightarrow> jsval \<Rightarrow> (string \<times> jsval) list option" where
  "common E i ev = do {
     eid \<leftarrow> js_or (getp ev ''eid'') (Some Null);
     dtm \<leftarrow> getp ev ''dtm'';
     ts \<leftarrow> (if truthy dtm then Number E dtm
           else do {
             t \<leftarrow> getp ev ''timestamp'';
             if truthy t then Number E t else Some (num (now E i))
           });
     vid \<leftarrow> js_or (getp ev ''vid'') (Some Null);
     sid \<leftarrow> js_or (getp ev ''sid'') (Some Null);
     p \<leftarrow> js_or (getp ev ''p'') (Some Null);
     url \<leftarrow> js_or (getp ev ''url'') (js_or (getp ev ''pageUrl'') (Some Null));
     Some [(''eid'', eid), (''ts'', ts), (''vid'', vid), (''sid'', sid), (''p'', p),
           (''url'', url), (''raw'', ev)]
   }"

text \<open>The loop over the carriers in their try order: the first result that is truthy,
  else the result for the last carrier.\<close>

fun try_carriers :: "env \<Rightarrow> jsval \<Rightarrow> jsval list \<Rightarrow> jsval" where
  "try_carriers E normalized [] = normalized"
| "try_carriers E normalized (c # cs) =
     (let n = tryNormalize E c in if truthy n then n else try_carriers E n cs)"

text \<open>The value of \<^verbatim>\<open>normalized\<close> in the self-describing branch: the decoded carrier.\<close>

definition decode_carrier :: "env \<Rightarrow> jsval \<Rightarrow> jsval \<Rightarrow> jsval option" where
  "decode_carrier E ev encodeBase64 = do {
     uePx \<leftarrow> getp ev ''ue_px'';
     uePr \<leftarrow> getp ev ''ue_pr'';
     unstruct \<leftarrow> js_or (getp ev ''unstruct_event'') (js_or (getp ev ''unstruct'') (getp ev ''ue''));
     let ordered =
       (if encodeBase64 = Bool True then [uePx, uePr, unstruct]
        else if truthy encodeBase64 then [uePr, uePx, unstruct]
        else if truthy uePr \<and> isLikelyJsonString uePr then [uePr, uePx, unstruct]
        else if truthy uePx \<and> isLikelyBase64 uePx then [uePx, uePr, unstruct]
        else [uePr, uePx, unstruct]);
     let normalized = try_carriers E Null ordered;
     Some (if \<not> truthy normalized \<and> truthy unstruct
           then (let n = tryNormalize E unstruct in if truthy n then n else Null)
           else normalized)
   }"

text \<open>
  \<^verbatim>\<open>parseSnowplowEvent\<close> returns in one of four places. Which one is decided by the
  tests on \<^verbatim>\<open>ev.e\<close> and \<^verbatim>\<open>ev.event\<close>, in the order of the source; each return is a
  definition of its own, given the common fields \<open>cm\<close>.
\<close>

datatype branch = Structured | SelfDescribing | PageView | Fallback

definition branch_of :: "jsval \<Rightarrow> branch option" where
  "branch_of ev = do {
     e \<leftarrow> getp ev ''e'';
     if e = Str (U ''se'') \<or> e = Str (U ''structured_event'') then Some Structured
     else if e = Str (U ''ue'') \<or> e = Str (U ''unstruct'') then Some SelfDescribing
     else do {
       event \<leftarrow> getp ev ''event'';
       Some (if event = Str (U ''page_view'') \<or> e = Str (U ''pv'') then PageView else Fallback)
     }
   }"

definition structured_event :: "jsval \<Rightarrow> (string \<times> jsval) list \<Rightarrow> jsval option" where
  "structured_event ev cm = do {
     se_pr0 \<leftarrow> getp ev ''se_pr'';
     let se_pr =
       (if typeof se_pr0 = ''string''
        then (let p = tryParseJsonSafe se_pr0 in if truthy p then p else se_pr0)
        else se_pr0);
     category \<leftarrow> js_or (getp ev ''se_ca'') (js_or (getp ev ''category'') (Some Null));
     action \<leftarrow> js_or (getp ev ''se_ac'') (js_or (getp ev ''action'') (Some Null));
     label \<leftarrow> js_or (getp ev ''se_la'') (Some Null);
     Some (mk_obj ([(''eventType'', Str (U ''structured_event'')), (''category'', category),
                    (''action'', action), (''label'', label),
                    (''property'', if truthy se_pr then se_pr else Null)] @ cm))
   }"

text \<open>The schema and the payload of a decoded carrier, with the one further level of
  \<^verbatim>\<open>data\<close> taken off.\<close>

definition unwrap :: "jsval \<Rightarrow> (jsval \<times> jsval) option" where
  "unwrap normalized = do {
     schema \<leftarrow> js_or (getp normalized ''schema'')
                (js_or (js_and (getp normalized ''self'')
                          (do { s \<leftarrow> getp normalized ''self''; getp s ''schema'' }))
                   (Some Null));
     payload \<leftarrow> js_or (getp normalized ''data'')
                 (js_or (js_and (getp normalized ''self'')
                           (do { s \<leftarrow> getp normalized ''self''; getp s ''data'' }))
                    (Some normalized));
     if truthy payload \<and> typeof payload = ''object'' then do {
       d \<leftarrow> getp payload ''data'';
       Some (schema, if d \<noteq> Undefined \<and> typeof d = ''object'' then d else payload)
     }
     else Some (schema, payload)
   }"

definition self_describing :: "env \<Rightarrow> jsval \<Rightarrow> jsval \<Rightarrow> (string \<times> jsval) list \<Rightarrow> jsval option" where
  "self_describing E ev encodeBase64 cm = do {
     normalized \<leftarrow> decode_carrier E ev encodeBase64;
     (schema, payload) \<leftarrow> (if truthy normalized then unwrap normalized else Some (Null, ev));
     Some (mk_obj ([(''eventType'', Str (U ''unstruct'')), (''schema'', schema),
                    (''payload'', payload)] @ cm))
   }"

definition page_view_event :: "jsval \<Rightarrow> (string \<times> jsval) list \<Rightarrow> jsval option" where
  "page_view_event ev cm = do {
     title \<leftarrow> js_or (getp ev ''pageTitle'') (js_or (getp ev ''dt'') (Some Null));
     url \<leftarrow> js_or (getp ev ''pageUrl'') (js_or (getp ev ''url'') (Some Null));
     referrer \<leftarrow> js_or (getp ev ''refr'') (js_or (getp ev ''referrer'') (Some Null));
     Some (mk_obj ([(''eventType'', Str (U ''page_view'')), (''title'', title),
                    (''url'', url), (''referrer'', referrer)] @ cm))
   }"

definition fallback_event :: "jsval \<Rightarrow> (string \<times> jsval) list \<Rightarrow> jsval option" where
  "fallback_event ev cm = do {
     eventType \<leftarrow> js_or (getp ev ''e'') (js_or (getp ev ''event'') (Some (Str (U ''unknown''))));
     Some (mk_obj ([(''eventType'', eventType), (''payload'', ev)] @ cm))
   }"

definition parseSnowplowEvent :: "env \<Rightarrow> nat \<Rightarrow> jsval \<Rightarrow> jsval \<Rightarrow> jsval option" where
  "parseSnowplowEvent E i ev encodeBase64 =
     (if \<not> truthy ev \<or> typeof ev \<noteq> ''object'' then Some Null
      else do {
        cm \<leftarrow> common E i ev;
        b \<leftarrow> branch_of ev;
        case b of
          Structured \<Rightarrow> structured_event ev cm
        | SelfDescribing \<Rightarrow> self_describing E ev encodeBase64 cm
        | PageView \<Rightarrow> page_view_event ev cm
        | Fallback \<Rightarrow> fallback_event ev cm
      })"

text \<open>\<^verbatim>\<open>xs.map(ev => parseSnowplowEvent(ev, encodeBase64)).filter(Boolean)\<close>\<close>

definition parse_all :: "(nat \<Rightarrow> jsval \<Rightarrow> jsval option) \<Rightarrow> jsval list \<Rightarrow> jsval list option" where
  "parse_all f xs = map_option (filter truthy) (those (map (\<lambda>(i, ev). f i ev) (zip [0..<length xs] xs)))"

definition raw_text :: "ustring \<Rightarrow> jsval" where
  "raw_text t = mk_obj [(''eventType'', Str (U ''raw_text'')), (''payload'', Str t)]"

definition unknown_event :: "jsval \<Rightarrow> jsval" where
  "unknown_event parsed = mk_obj [(''eventType'', Str (U ''unknown'')), (''payload'', parsed)]"

fun elems :: "jsval \<Rightarrow> jsval list" where
  "elems (Arr xs) = xs"
| "elems v = []"

text \<open>The first part of \<^verbatim>\<open>parseSync\<close>: a string is resolved to a value (\<open>Inr\<close>), or the
  function returns the raw-text batch at once (\<open>Inl\<close>).\<close>

definition resolve_text :: "env \<Rightarrow> jsval \<Rightarrow> jsval list + jsval" where
  "resolve_text E parsed =
     (case parsed of
        Str s \<Rightarrow>
          (let t = trim s in
           if (startsWith t ''{'' \<and> endsWith t ''}'') \<or> (startsWith t ''['' \<and> endsWith t '']'') then
             (let p = tryParseJsonSafe (Str t) in
              if p \<noteq> Null then Inr p
              else (let dec = tryDecodeBase64JsonSafe E (Str t) in
                    if dec \<noteq> Null then Inr dec else Inl [raw_text t]))
           else
             (let dec = tryDecodeBase64JsonSafe E (Str t) in
              if dec \<noteq> Null then Inr dec
              else (let p2 = tryParseJsonSafe (Str t) in
                    if p2 \<noteq> Null then Inr p2 else Inl [raw_text t])))
      | _ \<Rightarrow> Inr parsed)"

definition parseSync :: "env \<Rightarrow> jsval \<Rightarrow> jsval \<Rightarrow> jsval list option" where
  "parseSync E bodyText encodeBase64 =
     (if bodyText = Undefined \<or> bodyText = Null then Some []
      else
        (case resolve_text E bodyText of
           Inl out \<Rightarrow> Some out
         | Inr parsed \<Rightarrow>
             (if truthy parsed \<and> typeof parsed = ''object'' then do {
                schema \<leftarrow> getp parsed ''schema'';
                data \<leftarrow> getp parsed ''data'';
                if truthy schema \<and> isArray data then
                  parse_all (\<lambda>i ev. parseSnowplowEvent E i ev encodeBase64) (elems data)
                else if isArray parsed then
                  parse_all (\<lambda>i ev. parseSnowplowEvent E i ev encodeBase64) (elems parsed)
                else do {
                  ud \<leftarrow> getp parsed ''unstruct_event'';
                  if truthy ud then do {
                    normalized \<leftarrow>
                      js_or (getp ud ''data'')
                        (js_or (do { px \<leftarrow> js_or (getp parsed ''ue_px'') (Some (Str []));
                                     Some (tryDecodeBase64JsonSafe E px) })
                           (js_or (do { pr \<leftarrow> js_or (getp parsed ''ue_pr'') (Some (Str []));
                                        Some (tryParseJsonSafe pr) })
                              (Some ud)));
                    schema' \<leftarrow> js_or (getp ud ''schema'')
                                (js_or (js_and (Some normalized) (getp normalized ''schema''))
                                   (Some Null));
                    payload \<leftarrow> js_or (js_and (Some normalized)
                                         (js_or (getp normalized ''data'') (Some normalized)))
                                (Some ud);
                    Some [mk_obj [(''eventType'', Str (U ''unstruct'')), (''schema'', schema'),
                                  (''payload'', payload), (''raw'', parsed)]]
                  }
                  else do {
                    ev \<leftarrow> parseSnowplowEvent E 0 parsed encodeBase64;
                    Some [ev]
                  }
                }
              }
              else Some [unknown_event parsed])))"

text \<open>
  The chunked loop: slices of \<open>chunkSize\<close> elements from position \<open>i\<close> on, each element
  parsed by \<open>f\<close> and kept when truthy. With \<open>chunkSize = 0\<close> the position never advances
  and the loop does not end: the result is \<open>None\<close>, as when \<open>f\<close> throws.
\<close>

fun parse_slice :: "(nat \<Rightarrow> jsval \<Rightarrow> jsval option) \<Rightarrow> nat \<Rightarrow> jsval list \<Rightarrow> jsval list \<Rightarrow> jsval list option" where
  "parse_slice f i [] out = Some out"
| "parse_slice f i (x # slice) out =
     (case f i x of
        None \<Rightarrow> None
      | Some ev \<Rightarrow> parse_slice f (Suc i) slice (if truthy ev then out @ [ev] else out))"

partial_function (option) chunk_loop ::
  "(nat \<Rightarrow> jsval \<Rightarrow> jsval option) \<Rightarrow> nat \<Rightarrow> jsval list \<Rightarrow> nat \<Rightarrow> jsval list \<Rightarrow> jsval list option" where
  "chunk_loop f chunkSize arr i out =
     (if i < length arr then
        Option.bind (parse_slice f i (take chunkSize (drop i arr)) out)
          (\<lambda>out'. chunk_loop f chunkSize arr (i + chunkSize) out')
      else Some out)"

declare chunk_loop.simps [code]

definition transformSnowplowPayload :: "env \<Rightarrow> jsval \<Rightarrow> jsval \<Rightarrow> jsval list option" where
  "transformSnowplowPayload E bodyText encodeBase64 =
     (let chunkSize = 50 in
      if bodyText = Undefined \<or> bodyText = Null then Some []
      else
        (let top' =
           (if typeof bodyText = ''string'' then
              (let maybe = tryParseJsonSafe bodyText in
               if maybe \<noteq> Null then maybe
               else if isLikelyBase64 bodyText then
                 (let dec = tryDecodeBase64JsonSafe E bodyText in
                  if dec \<noteq> Null then dec else bodyText)
               else bodyText)
            else bodyText)
         in if isArray top' \<and> chunkSize < length (elems top') then
              chunk_loop (\<lambda>i ev. parseSnowplowEvent E i ev encodeBase64) chunkSize (elems top') 0 []
            else parseSync E top' encodeBase64))"


section \<open>src/utils/parseWithWebWorker.js\<close>

text \<open>
  The functions of this file that share a name with one of \<^verbatim>\<open>const.js\<close> carry the
  prefix \<open>w_\<close>. The options are the caller's, merged over \<open>DEFAULTS\<close>.
\<close>

record opts =
  useWorker :: bool
  workerThresholdEvents :: int
  workerThresholdBytes :: int
  chunkSize :: nat
  workerTimeoutMs :: nat
  debug :: bool

definition DEFAULTS :: opts where
  "DEFAULTS = \<lparr>useWorker = True, workerThresholdEvents = 100, workerThresholdBytes = 50 * 1024,
                chunkSize = 50, workerTimeoutMs = 3000, debug = False\<rparr>"

text \<open>
  \<^verbatim>\<open>base64DecodeToString\<close>: \<^verbatim>\<open>b64.replace\<close> is a TypeError on anything but a string,
  caught by the outer \<^verbatim>\<open>try\<close>; when \<^verbatim>\<open>decodeURIComponent\<close> throws, the inner \<^verbatim>\<open>catch\<close>
  returns the binary string itself.
\<close>

definition base64DecodeToString :: "env \<Rightarrow> jsval \<Rightarrow> jsval" where
  "base64DecodeToString E b64 =
     (if \<not> truthy b64 then Null
      else
        (case b64 of
           Str s \<Rightarrow>
             (let t = pad4 (replace_all CHR ''_'' CHR ''/'' (replace_all CHR ''-'' CHR ''+'' s)) in
              case (if hasAtob E then atob t else None) of
                None \<Rightarrow> Null
              | Some bin \<Rightarrow>
                  (case decodeURIComponent (concat (map percent_encode_byte bin)) of
                     Some txt \<Rightarrow> Str txt
                   | None \<Rightarrow> Str bin))
         | _ \<Rightarrow> Null))"

definition tryDecodeBase64Json :: "env \<Rightarrow> jsval \<Rightarrow> jsval" where
  "tryDecodeBase64Json E b64 =
     (let txt = base64DecodeToString E b64 in
      if \<not> truthy txt then Null
      else
        (case ToString txt of
           None \<Rightarrow> Null
         | Some t \<Rightarrow> (case JSON_parse t of None \<Rightarrow> Null | Some v \<Rightarrow> v)))"

definition tryParseJSONSafe :: "jsval \<Rightarrow> jsval" where
  "tryParseJSONSafe s =
     (case ToString s of
        None \<Rightarrow> Null
      | Some t \<Rightarrow> (case JSON_parse t of None \<Rightarrow> Null | Some v \<Rightarrow> v))"

text \<open>The four returns of this file's \<^verbatim>\<open>parseSnowplowEvent\<close>; the page-view and the
  fallback return are those of \<^verbatim>\<open>const.js\<close>.\<close>

definition w_branch_of :: "jsval \<Rightarrow> branch option" where
  "w_branch_of ev = do {
     e \<leftarrow> getp ev ''e'';
     if e = Str (U ''se'') \<or> e = Str (U ''structured_event'') then Some Structured
     else do {
       ue \<leftarrow> getp ev ''unstruct_event'';
       if e = Str (U ''ue'') \<or> e = Str (U ''unstruct'') \<or> e = Str (U ''ue_px'') \<or> truthy ue
       then Some SelfDescribing
       else do {
         event \<leftarrow> getp ev ''event'';
         Some (if event = Str (U ''page_view'') \<or> e = Str (U ''pv'') then PageView else Fallback)
       }
     }
   }"

definition w_structured_event :: "jsval \<Rightarrow> (string \<times> jsval) list \<Rightarrow> jsval option" where
  "w_structured_event ev cm = do {
     se_pr0 \<leftarrow> getp ev ''se_pr'';
     let se_pr =
       (case se_pr0 of
          Str x \<Rightarrow> (case JSON_parse x of Some v \<Rightarrow> v | None \<Rightarrow> se_pr0)
        | _ \<Rightarrow> se_pr0);
     category \<leftarrow> js_or (getp ev ''se_ca'') (js_or (getp ev ''category'') (Some Null));
     action \<leftarrow> js_or (getp ev ''se_ac'') (js_or (getp ev ''action'') (Some Null));
     label \<leftarrow> js_or (getp ev ''se_la'') (Some Null);
     Some (mk_obj ([(''eventType'', Str (U ''structured_event'')), (''category'', category),
                    (''action'', action), (''label'', label),
                    (''property'', if truthy se_pr then se_pr else Null)] @ cm))
   }"

definition w_self_describing :: "env \<Rightarrow> jsval \<Rightarrow> (string \<times> jsval) list \<Rightarrow> jsval option" where
  "w_self_describing E ev cm = do {
     ue_px \<leftarrow> js_or (getp ev ''ue_px'')
                (js_or (getp ev ''unstruct_event'') (js_or (getp ev ''unstruct'') (Some Null)));
     let decoded =
       (if typeof ue_px = ''string'' then
          (let d = tryDecodeBase64Json E ue_px in
           if truthy d then d else tryParseJSONSafe ue_px)
        else if typeof ue_px = ''object'' then ue_px
        else Null);
     (schema, data) \<leftarrow>
       (if truthy decoded then do {
          schema \<leftarrow> js_or (getp decoded ''schema'')
                     (js_or (js_and (getp decoded ''self'')
                               (do { s \<leftarrow> getp decoded ''self''; getp s ''schema'' }))
                        (Some Null));
          data \<leftarrow> js_or (getp decoded ''data'')
                   (js_or (js_and (getp decoded ''self'')
                             (do { s \<leftarrow> getp decoded ''self''; getp s ''data'' }))
                      (Some decoded));
          Some (schema, data)
        }
        else do {
          schema \<leftarrow> js_or (getp ev ''schema'') (Some Null);
          data \<leftarrow> js_or (getp ev ''data'') (js_or (getp ev ''payload'') (Some ev));
          Some (schema, data)
        });
     Some (mk_obj ([(''eventType'', Str (U ''unstruct'')), (''schema'', schema),
                    (''payload'', data)] @ cm))
   }"

definition w_parseSnowplowEvent :: "env \<Rightarrow> nat \<Rightarrow> jsval \<Rightarrow> jsval option" where
  "w_parseSnowplowEvent E i ev =
     (if \<not> truthy ev \<or> typeof ev \<noteq> ''object'' then Some Null
      else do {
        cm \<leftarrow> common E i ev;
        b \<leftarrow> w_branch_of ev;
        case b of
          Structured \<Rightarrow> w_structured_event ev cm
        | SelfDescribing \<Rightarrow> w_self_describing E ev cm
        | PageView \<Rightarrow> page_view_event ev cm
        | Fallback \<Rightarrow> fallback_event ev cm
      })"

definition w_resolve_text :: "env \<Rightarrow> jsval \<Rightarrow> jsval list + jsval" where
  "w_resolve_text E parsed =
     (case parsed of
        Str s \<Rightarrow>
          (let t = trim s in
           if (startsWith t ''{'' \<and> endsWith t ''}'') \<or> (startsWith t ''['' \<and> endsWith t '']'') then
             (case JSON_parse t of
                Some v \<Rightarrow> Inr v
              | None \<Rightarrow>
                  (let decoded = tryDecodeBase64Json E (Str t) in
                   if truthy decoded then Inr decoded else Inl [raw_text t]))
           else
             (let decoded = tryDecodeBase64Json E (Str t) in
              if truthy decoded then Inr decoded else Inl [raw_text t]))
      | _ \<Rightarrow> Inr parsed)"

definition w_parseSync :: "env \<Rightarrow> jsval \<Rightarrow> jsval list option" where
  "w_parseSync E bodyText =
     (if \<not> truthy bodyText then Some []
      else
        (case w_resolve_text E bodyText of
           Inl out \<Rightarrow> Some out
         | Inr parsed \<Rightarrow>
             (if truthy parsed \<and> typeof parsed = ''object'' then do {
                schema \<leftarrow> getp parsed ''schema'';
                data \<leftarrow> getp parsed ''data'';
                if truthy schema \<and> isArray data then
                  parse_all (w_parseSnowplowEvent E) (elems data)
                else if isArray parsed then
                  parse_all (w_parseSnowplowEvent E) (elems parsed)
                else do {
                  ud \<leftarrow> getp parsed ''unstruct_event'';
                  if truthy ud then do {
                    decoded \<leftarrow>
                      js_or (getp ud ''data'')
                        (do { arg \<leftarrow> js_or (getp parsed ''ue_px'')
                                      (js_and (getp ud ''data'') (getp ud ''data''));
                              Some (tryDecodeBase64Json E arg) });
                    schema' \<leftarrow> js_or (getp ud ''schema'') (Some Null);
                    payload \<leftarrow> js_or (Some decoded) (js_or (getp ud ''data'') (Some ud));
                    Some [mk_obj [(''eventType'', Str (U ''unstruct'')), (''schema'', schema'),
                                  (''payload'', payload), (''raw'', parsed)]]
                  }
                  else do {
                    ev \<leftarrow> w_parseSnowplowEvent E 0 parsed;
                    Some [ev]
                  }
                }
              }
              else Some [unknown_event parsed])))"

definition estimateUtf8Bytes :: "env \<Rightarrow> ustring \<Rightarrow> nat" where
  "estimateUtf8Bytes E str =
     (if hasTextEncoder E then length (utf8_encode str) else (3 * js_length str + 1) div 2)"

definition parseInChunks :: "env \<Rightarrow> jsval \<Rightarrow> opts \<Rightarrow> jsval list option" where
  "parseInChunks E bodyText opt =
     (case (case bodyText of
              Str s \<Rightarrow>
                (case JSON_parse s of
                   Some v \<Rightarrow> Inr v
                 | None \<Rightarrow>
                     (let dec = tryDecodeBase64Json E bodyText in
                      if truthy dec then Inr dec else Inl (w_parseSync E bodyText)))
            | _ \<Rightarrow> Inr bodyText) of
        Inl out \<Rightarrow> out
      | Inr parsed \<Rightarrow>
          if isArray parsed \<and> chunkSize opt < length (elems parsed) then
            chunk_loop (w_parseSnowplowEvent E) (chunkSize opt) (elems parsed) 0 []
          else w_parseSync E parsed)"

subsection \<open>The worker session\<close>

text \<open>
  What the worker does is an input: whether creating it throws, and the events it
  delivers to the page with their arrival times, in order. The promise is settled by the
  first call of \<^verbatim>\<open>resolve\<close>; a handler that throws leaves it as it is, and the executor
  that throws rejects it.
\<close>

datatype wevent = OnMessage jsval | OnError

record worker =
  creation_fails :: bool
  events :: "(nat \<times> wevent) list"

datatype outcome = Resolved jsval | Rejected

record session =
  terminated :: bool
  timer :: bool
  alive :: bool
  settled :: "(nat \<times> outcome) option"
  resolve_calls :: nat

definition resolve :: "nat \<Rightarrow> jsval \<Rightarrow> session \<Rightarrow> session" where
  "resolve tm v s =
     s\<lparr>resolve_calls := Suc (resolve_calls s),
       settled := (case settled s of None \<Rightarrow> Some (tm, Resolved v) | Some x \<Rightarrow> Some x)\<rparr>"

definition cleanup :: "session \<Rightarrow> session" where
  "cleanup s = s\<lparr>timer := False, alive := False\<rparr>"

text \<open>\<^verbatim>\<open>resolve(parseSync(bodyText))\<close>\<close>

definition fallback :: "env \<Rightarrow> jsval \<Rightarrow> nat \<Rightarrow> session \<Rightarrow> session" where
  "fallback E bodyText tm s =
     (case w_parseSync E bodyText of None \<Rightarrow> s | Some r \<Rightarrow> resolve tm (Arr r) s)"

definition onmessage :: "env \<Rightarrow> jsval \<Rightarrow> nat \<Rightarrow> jsval \<Rightarrow> session \<Rightarrow> session" where
  "onmessage E bodyText tm d s =
     (if terminated s then s
      else
        (let s1 = cleanup (s\<lparr>terminated := True\<rparr>) in
         case js_and (Some d) (getp d ''ok'') of
           None \<Rightarrow> s1
         | Some ok \<Rightarrow>
             if truthy ok then (case getp d ''result'' of None \<Rightarrow> s1 | Some r \<Rightarrow> resolve tm r s1)
             else fallback E bodyText tm s1))"

definition onerror :: "env \<Rightarrow> jsval \<Rightarrow> nat \<Rightarrow> session \<Rightarrow> session" where
  "onerror E bodyText tm s =
     (if terminated s then s
      else fallback E bodyText tm (cleanup (s\<lparr>terminated := True\<rparr>)))"

definition ontimeout :: "env \<Rightarrow> jsval \<Rightarrow> nat \<Rightarrow> session \<Rightarrow> session" where
  "ontimeout E bodyText tm s =
     (if terminated s then s\<lparr>timer := False\<rparr>
      else fallback E bodyText tm (s\<lparr>terminated := True, timer := False, alive := False\<rparr>))"

text \<open>A terminated worker delivers nothing.\<close>

fun deliver :: "env \<Rightarrow> jsval \<Rightarrow> (nat \<times> wevent) list \<Rightarrow> session \<Rightarrow> session" where
  "deliver E bodyText [] s = s"
| "deliver E bodyText ((tm, ev) # r) s =
     deliver E bodyText r
       (if alive s then
          (case ev of OnMessage d \<Rightarrow> onmessage E bodyText tm d s | OnError \<Rightarrow> onerror E bodyText tm s)
        else s)"

definition parseWithWorker :: "env \<Rightarrow> jsval \<Rightarrow> opts \<Rightarrow> worker \<Rightarrow> session" where
  "parseWithWorker E bodyText opt wk =
     (if creation_fails wk then
        (case w_parseSync E bodyText of
           None \<Rightarrow> \<lparr>terminated = False, timer = False, alive = False,
                    settled = Some (0, Rejected), resolve_calls = 0\<rparr>
         | Some r \<Rightarrow> resolve 0 (Arr r)
                      \<lparr>terminated = False, timer = False, alive = False,
                       settled = None, resolve_calls = 0\<rparr>)
      else
        (let s0 = \<lparr>terminated = False, timer = True, alive = True,
                   settled = None, resolve_calls = 0\<rparr>;
             s1 = deliver E bodyText (takeWhile (\<lambda>(tm, ev). tm < workerTimeoutMs opt) (events wk)) s0;
             s2 = (if timer s1 then ontimeout E bodyText (workerTimeoutMs opt) s1 else s1)
         in deliver E bodyText (dropWhile (\<lambda>(tm, ev). tm < workerTimeoutMs opt) (events wk)) s2))"

subsection \<open>The entry point\<close>

text \<open>The estimates: bytes and top-level count.\<close>

definition estimate :: "env \<Rightarrow> jsval \<Rightarrow> nat \<times> nat" where
  "estimate E bodyText =
     (case bodyText of
        Str s \<Rightarrow>
          (estimateUtf8Bytes E s,
           let t = trim s in
           if startsWith t ''['' then length (filter (\<lambda>c. c = 44) t) + 1 else 0)
      | Arr xs \<Rightarrow>
          (case JSON_stringify bodyText of Some j \<Rightarrow> estimateUtf8Bytes E j | None \<Rightarrow> 0, length xs)
      | Obj kvs \<Rightarrow>
          (case JSON_stringify bodyText of Some j \<Rightarrow> estimateUtf8Bytes E j | None \<Rightarrow> 0,
           case getp bodyText ''data'' of Some (Arr xs) \<Rightarrow> length xs | _ \<Rightarrow> 0)
      | _ \<Rightarrow> (0, 0))"

definition shouldUseWorker :: "env \<Rightarrow> opts \<Rightarrow> jsval \<Rightarrow> bool" where
  "shouldUseWorker E opt bodyText =
     (let (estimatedBytes, topLevelCount) = estimate E bodyText in
      useWorker opt \<and>
      ((topLevelCount \<noteq> 0 \<and> workerThresholdEvents opt \<le> int topLevelCount) \<or>
       (estimatedBytes \<noteq> 0 \<and> workerThresholdBytes opt \<le> int estimatedBytes)))"

datatype path = Empty | Background | Foreground

definition dispatch :: "env \<Rightarrow> opts \<Rightarrow> jsval \<Rightarrow> path" where
  "dispatch E opt bodyText =
     (if \<not> truthy bodyText then Empty
      else if shouldUseWorker E opt bodyText \<and> hasWorker E then Background
      else Foreground)"

text \<open>The value the caller's \<^verbatim>\<open>await\<close> yields; \<open>None\<close> when the promise is rejected or
  never settled.\<close>

definition w_transformSnowplowPayload :: "env \<Rightarrow> jsval \<Rightarrow> opts \<Rightarrow> worker \<Rightarrow> jsval option" where
  "w_transformSnowplowPayload E bodyText opt wk =
     (case dispatch E opt bodyText of
        Empty \<Rightarrow> Some (Arr [])
      | Background \<Rightarrow>
          (case settled (parseWithWorker E bodyText opt wk) of
             Some (tm, Resolved v) \<Rightarrow> Some v
           | _ \<Rightarrow> None)
      | Foreground \<Rightarrow> map_option Arr (parseInChunks E bodyText opt))"


section \<open>Reading results\<close>

text \<open>
  The value a property read yields where it does not throw, the value of \<^verbatim>\<open>a || b\<close> for
  two values, a field of a returned record, whether a record has a field, and an
  environment to run the program in: a browser with every optional global, a clock and a
  numeric conversion.
\<close>

definition lookup :: "jsval \<Rightarrow> string \<Rightarrow> jsval" where
  "lookup v k = (case getp v k of Some x \<Rightarrow> x | None \<Rightarrow> Undefined)"

definition vor :: "jsval \<Rightarrow> jsval \<Rightarrow> jsval" where
  "vor a b = (if truthy a then a else b)"

definition field :: "string \<Rightarrow> jsval option \<Rightarrow> jsval option" where
  "field k r = Option.bind r (\<lambda>v. getp v k)"

definition has_field :: "string \<Rightarrow> jsval \<Rightarrow> bool" where
  "has_field k v = (case v of Obj kvs \<Rightarrow> U k \<in> fst ` set kvs | _ \<Rightarrow> False)"

definition browser :: env where
  "browser = \<lparr>now = (\<lambda>i. 1700000000000 + int i),
              numeric = (\<lambda>v. case v of Num n \<Rightarrow> Num n | _ \<Rightarrow> Num NaN),
              hasWorker = True, hasTextEncoder = True, hasTextDecoder = True, hasAtob = True\<rparr>"


text \<open>The fields a record of each branch has besides the common ones, normalizing twice,
  and the carriers of the double-unwrap examples.\<close>

definition branch_keys :: "branch \<Rightarrow> string set" where
  "branch_keys b =
     (case b of
        Structured \<Rightarrow> {''eventType'', ''category'', ''action'', ''label'', ''property''}
      | SelfDescribing \<Rightarrow> {''eventType'', ''schema'', ''payload''}
      | PageView \<Rightarrow> {''eventType'', ''title'', ''url'', ''referrer''}
      | Fallback \<Rightarrow> {''eventType'', ''payload''})"

definition normalize_twice :: "env \<Rightarrow> jsval \<Rightarrow> jsval option" where
  "normalize_twice E ev = Option.bind (parseSnowplowEvent E 0 ev Undefined) (\<lambda>r. parseSnowplowEvent E 0 r Undefined)"

definition wrap :: "jsval \<Rightarrow> jsval" where
  "wrap d = Obj [(U ''data'', d)]"

definition carrier :: "jsval \<Rightarrow> jsval" where
  "carrier d = Obj [(U ''schema'', Str (U ''s'')), (U ''data'', d)]"

definition foo1 :: jsval where
  "foo1 = Obj [(U ''foo'', num 1)]"


section \<open>Basic facts\<close>

text \<open>A number of ordinary size is neither rounded to zero nor to infinity.\<close>

lemma pow_bounds: "(10::int) ^ 305 < 2 ^ 1024 - 2 ^ 970" "(10::int) ^ 300 < 2 ^ 1075"
  "(0::int) \<le> 2 ^ 1024 - 2 ^ 970" "(10::int) ^ 15 < 2 ^ 1024 - 2 ^ 970"
  by simp_all

lemma lin1: "(B::int) \<le> BP \<Longrightarrow> x < T \<Longrightarrow> T < B \<Longrightarrow> \<not> BP \<le> x"
  by linarith

lemma lin2: "(P::int) \<le> Q \<Longrightarrow> Q < R \<Longrightarrow> R \<le> S \<Longrightarrow> \<not> S \<le> P"
  by linarith

lemma lin3: "(x::int) \<le> y \<Longrightarrow> y < z \<Longrightarrow> z = w \<Longrightarrow> w < B \<Longrightarrow> \<not> B \<le> x"
  by linarith

lemma to_double_zero: "to_double 0 e = Dec 0 0"
  by (simp add: to_double_def)

lemma to_double_small:
  assumes "m \<noteq> 0" "\<bar>m\<bar> < 1000000000000000" "- 300 \<le> e" "e \<le> 290"
  shows "to_double m e = dec_norm m e"
proof (cases "0 \<le> e")
  case True
  have le: "(10::int) ^ nat e \<le> 10 ^ 290" using assms(4) True by (intro power_increasing) simp_all
  have lt: "\<bar>m\<bar> < 10 ^ 15" using assms(2) by simp
  have 1: "\<bar>m\<bar> * 10 ^ nat e \<le> \<bar>m\<bar> * 10 ^ 290"
    by (rule mult_left_mono[OF le]) simp
  have 2: "\<bar>m\<bar> * 10 ^ 290 < 10 ^ 15 * 10 ^ 290"
    by (rule mult_strict_right_mono[OF lt]) simp
  have 3: "(10::int) ^ 15 * 10 ^ 290 = 10 ^ 305" by (simp only: power_add[symmetric]) simp
  have a: "\<not> 2 ^ 1024 - 2 ^ 970 \<le> \<bar>m\<bar> * 10 ^ nat e"
    by (rule lin3[OF 1 2 3 pow_bounds(1)])
  have ne: "\<not> e < 0" using True by simp
  from True assms(1) a ne show ?thesis by (simp only: to_double_def if_True if_False simp_thms)
next
  case False
  have p: "(1::int) \<le> 10 ^ nat (- e)" by simp
  have "(2 ^ 1024 - 2 ^ 970) * 1 \<le> (2 ^ 1024 - 2 ^ 970) * (10::int) ^ nat (- e)"
    by (rule mult_left_mono[OF p pow_bounds(3)])
  then have q: "2 ^ 1024 - 2 ^ 970 \<le> (2 ^ 1024 - 2 ^ 970) * (10::int) ^ nat (- e)"
    by (simp only: mult_1_right)
  have lt: "\<bar>m\<bar> < 10 ^ 15" using assms(2) by simp
  have a: "\<not> (2 ^ 1024 - 2 ^ 970) * 10 ^ nat (- e) \<le> \<bar>m\<bar>"
    by (rule lin1[OF q lt pow_bounds(4)])
  have le: "(10::int) ^ nat (- e) \<le> 10 ^ 300" using assms(3) False by (intro power_increasing) simp_all
  have m1: "(1::int) \<le> \<bar>m\<bar>" using assms(1) by simp
  have "(2::int) ^ 1075 * 1 \<le> 2 ^ 1075 * \<bar>m\<bar>" by (rule mult_left_mono[OF m1]) simp
  then have r: "(2::int) ^ 1075 \<le> \<bar>m\<bar> * 2 ^ 1075" by (simp only: mult_1_right mult.commute[of _ "\<bar>m\<bar>"])
  have b: "\<not> \<bar>m\<bar> * 2 ^ 1075 \<le> 10 ^ nat (- e)"
    by (rule lin2[OF le pow_bounds(2) r])
  have "e < 0" using False by simp
  with False assms(1) a b show ?thesis by (simp only: to_double_def if_True if_False simp_thms)
qed

text \<open>The definitions that running the program on a concrete input unfolds.\<close>

declare show_nat.simps [simp del]
declare dec_norm.simps [simp del]
declare pad4.simps [simp del]

lemmas run =
  U_def js_or_def js_and_def mk_obj_def is_trim_ws_def trim_def startsWith_def endsWith_def
  js_length_def replace_all_def show_nat.simps show_int_def dec_norm.simps num_def
  show_num_def Number_def b64val_def
  is_ascii_ws_def strip_padding_def atob_def utf8_encode_cp_def utf8_encode_def is_cont_def
  hexval_def pct_byte_def seq_len_def hexdigit_def percent_encode_byte_def
  TextDecoder_decode_def is_digit_def digits_val_def to_double_zero to_double_small
  parse_number_def JSON_parse_def
  quote_char_def quote_def is_b64url_char_def matches_base64_re_def isLikelyBase64_def
  isLikelyJsonString_def tryParseJsonSafe_def binaryStringToUtf8_def pad4.simps
  tryDecodeBase64JsonSafe_def tryNormalize_def common_def decode_carrier_def branch_of_def
  structured_event_def unwrap_def self_describing_def page_view_event_def
  fallback_event_def parseSnowplowEvent_def parse_all_def raw_text_def unknown_event_def
  resolve_text_def parseSync_def chunk_loop.simps transformSnowplowPayload_def
  DEFAULTS_def base64DecodeToString_def tryDecodeBase64Json_def tryParseJSONSafe_def
  w_branch_of_def w_structured_event_def w_self_describing_def w_parseSnowplowEvent_def
  w_resolve_text_def w_parseSync_def estimateUtf8Bytes_def parseInChunks_def resolve_def
  cleanup_def fallback_def onmessage_def onerror_def ontimeout_def parseWithWorker_def
  estimate_def shouldUseWorker_def dispatch_def w_transformSnowplowPayload_def
  lookup_def vor_def field_def has_field_def browser_def branch_keys_def
  normalize_twice_def wrap_def carrier_def foo1_def


lemma U_inj [simp]: "U a = U b \<longleftrightarrow> a = b"
  unfolding U_def by (simp add: inj_map_eq_map[OF inj_of_char] inj_on_def)

lemma U_Nil [simp]: "U s = [] \<longleftrightarrow> s = []"
  by (simp add: U_def)



lemma common_keys:
  "common E i ev = Some cm \<Longrightarrow> map fst cm = [''eid'', ''ts'', ''vid'', ''sid'', ''p'', ''url'', ''raw'']"
  by (auto simp: common_def split: bind_splits if_splits)


lemma map_of_obj_set: "map_of (obj_set kvs k v) k' = (if k' = k then Some v else map_of kvs k')"
  by (induction kvs) auto

lemma map_of_foldl_obj_set:
  "map_of (foldl (\<lambda>acc (k, v). obj_set acc (U k) v) acc kvs) (U k') =
     (case map_of (rev kvs) k' of Some v \<Rightarrow> Some v | None \<Rightarrow> map_of acc (U k'))"
proof (induction kvs arbitrary: acc)
  case Nil
  then show ?case by simp
next
  case (Cons kv kvs)
  obtain k v where kv: "kv = (k, v)" by (cases kv)
  show ?case
    unfolding kv using Cons.IH[of "obj_set acc (U k) v"]
    by (auto simp: map_of_obj_set map_add_def split: option.splits)
qed

lemma getp_mk_obj:
  "getp (mk_obj kvs) k = Some (case map_of (rev kvs) k of Some v \<Rightarrow> v | None \<Rightarrow> Undefined)"
  by (simp add: mk_obj_def map_of_foldl_obj_set split: option.splits)

lemma mk_obj_object [simp]: "truthy (mk_obj kvs)" "typeof (mk_obj kvs) = ''object''" "mk_obj kvs \<noteq> Null"
  "mk_obj kvs \<noteq> Undefined"
  by (simp_all add: mk_obj_def)



lemma getp_truthy: "truthy v \<Longrightarrow> getp v k = Some (lookup v k)"
  by (cases v) (simp_all add: lookup_def)

lemma js_or_Some2 [simp]: "js_or (Some a) (Some b) = Some (vor a b)"
  by (simp add: js_or_def vor_def)

lemma js_or_Some: "js_or (Some a) b = (if truthy a then Some a else b)"
  by (simp add: js_or_def)

lemma js_and_Some: "js_and (Some a) b = (if truthy a then b else Some a)"
  by (simp add: js_and_def)

lemma branch_of_Some:
  "truthy ev \<Longrightarrow> \<exists>b. branch_of ev = Some b"
  by (simp add: branch_of_def getp_truthy)

lemma structured_event_eq:
  "truthy ev \<Longrightarrow> structured_event ev cm =
      Some (mk_obj ((''eventType'', Str (U ''structured_event'')) #
                    (''category'', vor (lookup ev ''se_ca'') (vor (lookup ev ''category'') Null)) #
                    (''action'', vor (lookup ev ''se_ac'') (vor (lookup ev ''action'') Null)) #
                    (''label'', vor (lookup ev ''se_la'') Null) #
                    (''property'',
                       vor (if typeof (lookup ev ''se_pr'') = ''string''
                            then vor (tryParseJsonSafe (lookup ev ''se_pr'')) (lookup ev ''se_pr'')
                            else lookup ev ''se_pr'') Null) # cm))"
  by (simp add: structured_event_def getp_truthy Let_def vor_def split del: if_split cong: if_cong)

lemma page_view_event_eq:
  "truthy ev \<Longrightarrow> page_view_event ev cm =
      Some (mk_obj ((''eventType'', Str (U ''page_view'')) #
                    (''title'', vor (lookup ev ''pageTitle'') (vor (lookup ev ''dt'') Null)) #
                    (''url'', vor (lookup ev ''pageUrl'') (vor (lookup ev ''url'') Null)) #
                    (''referrer'', vor (lookup ev ''refr'') (vor (lookup ev ''referrer'') Null)) # cm))"
  by (simp add: page_view_event_def getp_truthy)

lemma fallback_event_eq:
  "truthy ev \<Longrightarrow> fallback_event ev cm =
      Some (mk_obj ((''eventType'', vor (lookup ev ''e'') (vor (lookup ev ''event'') (Str (U ''unknown'')))) #
                    (''payload'', ev) # cm))"
  by (simp add: fallback_event_def getp_truthy)

lemma decode_carrier_Some: "truthy ev \<Longrightarrow> \<exists>n. decode_carrier E ev enc = Some n"
  by (simp add: decode_carrier_def getp_truthy Let_def js_or_Some)

lemma unwrap_Some: "truthy n \<Longrightarrow> \<exists>s p. unwrap n = Some (s, p)"
  by (simp add: unwrap_def getp_truthy js_or_Some js_and_Some)

lemma self_describing_shape:
  assumes "truthy ev"
  shows "\<exists>s p. self_describing E ev enc cm =
      Some (mk_obj ((''eventType'', Str (U ''unstruct'')) # (''schema'', s) # (''payload'', p) # cm))"
proof -
  obtain n where n: "decode_carrier E ev enc = Some n"
    using decode_carrier_Some[OF assms] by blast
  show ?thesis
  proof (cases "truthy n")
    case True
    then obtain s p where "unwrap n = Some (s, p)" using unwrap_Some by blast
    with n True show ?thesis by (simp add: self_describing_def) blast
  next
    case False
    with n show ?thesis by (simp add: self_describing_def) blast
  qed
qed


lemma parseSnowplowEvent_cases:
  assumes "truthy ev" "typeof ev = ''object''" "parseSnowplowEvent E i ev enc = Some r"
  obtains cm b where "common E i ev = Some cm" "branch_of ev = Some b"
    "(case b of Structured \<Rightarrow> structured_event ev cm
      | SelfDescribing \<Rightarrow> self_describing E ev enc cm
      | PageView \<Rightarrow> page_view_event ev cm
      | Fallback \<Rightarrow> fallback_event ev cm) = Some r"
  using assms by (auto simp: parseSnowplowEvent_def split: bind_splits)

lemma common_key_set:
  assumes "common E i ev = Some cm"
  shows "fst ` set cm = {''eid'', ''ts'', ''vid'', ''sid'', ''p'', ''url'', ''raw''}"
proof -
  have "fst ` set cm = set (map fst cm)" by simp
  also have "\<dots> = set [''eid'', ''ts'', ''vid'', ''sid'', ''p'', ''url'', ''raw'']"
    by (simp only: common_keys[OF assms])
  finally show ?thesis by simp
qed

lemma structured_event_keys:
  assumes "truthy ev" "structured_event ev cm = Some r"
  shows "\<exists>kvs. r = mk_obj kvs \<and>
     fst ` set kvs = {''eventType'', ''category'', ''action'', ''label'', ''property''} \<union> fst ` set cm"
  apply (insert assms(2))
  apply (unfold structured_event_eq[OF assms(1)] option.inject)
  apply (rule exI, rule conjI, erule sym)
  apply auto
  done

lemma self_describing_keys:
  assumes "truthy ev" "self_describing E ev enc cm = Some r"
  shows "\<exists>kvs. r = mk_obj kvs \<and> fst ` set kvs = {''eventType'', ''schema'', ''payload''} \<union> fst ` set cm"
proof -
  from self_describing_shape[OF assms(1), of E enc cm] assms(2) obtain s p where
    r: "mk_obj ((''eventType'', Str (U ''unstruct'')) # (''schema'', s) # (''payload'', p) # cm) = r"
    by auto
  show ?thesis
    apply (rule exI, rule conjI, rule r[symmetric])
    apply auto
    done
qed

lemma page_view_event_keys:
  assumes "truthy ev" "page_view_event ev cm = Some r"
  shows "\<exists>kvs. r = mk_obj kvs \<and> fst ` set kvs = {''eventType'', ''title'', ''url'', ''referrer''} \<union> fst ` set cm"
  apply (insert assms(2))
  apply (unfold page_view_event_eq[OF assms(1)] option.inject)
  apply (rule exI, rule conjI, erule sym)
  apply auto
  done

lemma fallback_event_keys:
  assumes "truthy ev" "fallback_event ev cm = Some r"
  shows "\<exists>kvs. r = mk_obj kvs \<and> fst ` set kvs = {''eventType'', ''payload''} \<union> fst ` set cm"
  apply (insert assms(2))
  apply (unfold fallback_event_eq[OF assms(1)] option.inject)
  apply (rule exI, rule conjI, erule sym)
  apply auto
  done

lemma parseSnowplowEvent_keys:
  assumes "truthy ev" "typeof ev = ''object''" "parseSnowplowEvent E i ev enc = Some r"
  obtains kvs b where "r = mk_obj kvs" "branch_of ev = Some b"
    "fst ` set kvs = branch_keys b \<union> {''eid'', ''ts'', ''vid'', ''sid'', ''p'', ''url'', ''raw''}"
proof -
  from assms obtain cm b where cm: "common E i ev = Some cm" and b: "branch_of ev = Some b"
    and r: "(case b of Structured \<Rightarrow> structured_event ev cm
      | SelfDescribing \<Rightarrow> self_describing E ev enc cm
      | PageView \<Rightarrow> page_view_event ev cm
      | Fallback \<Rightarrow> fallback_event ev cm) = Some r"
    by (rule parseSnowplowEvent_cases)
  note ks = common_key_set[OF cm]
  have "\<exists>kvs. r = mk_obj kvs \<and> fst ` set kvs = branch_keys b \<union> fst ` set cm"
  proof (cases b)
    case Structured
    with r structured_event_keys[OF assms(1), of cm r] show ?thesis by (simp add: branch_keys_def)
  next
    case SelfDescribing
    with r self_describing_keys[OF assms(1), of E enc cm r] show ?thesis by (simp add: branch_keys_def)
  next
    case PageView
    with r page_view_event_keys[OF assms(1), of cm r] show ?thesis by (simp add: branch_keys_def)
  next
    case Fallback
    with r fallback_event_keys[OF assms(1), of cm r] show ?thesis by (simp add: branch_keys_def)
  qed
  then obtain kvs where k1: "r = mk_obj kvs" and k2: "fst ` set kvs = branch_keys b \<union> fst ` set cm"
    by (elim exE conjE) (rule that; assumption)
  show ?thesis
    by (rule that[OF k1 b]) (simp only: k2 ks)
qed



lemma lookup_mk_obj: "lookup (mk_obj kvs) k = (case map_of (rev kvs) k of Some v \<Rightarrow> v | None \<Rightarrow> Undefined)"
  by (simp add: lookup_def getp_mk_obj)

lemma lookup_absent: "k \<notin> fst ` set kvs \<Longrightarrow> lookup (mk_obj kvs) k = Undefined"
proof -
  assume "k \<notin> fst ` set kvs"
  then have "map_of (rev kvs) k = None" by (simp add: map_of_eq_None_iff)
  then show ?thesis by (simp add: lookup_mk_obj)
qed

lemma common_no_timestamps:
  assumes "truthy ev" "lookup ev ''dtm'' = Undefined" "lookup ev ''timestamp'' = Undefined"
  shows "common E i ev =
    Some [(''eid'', vor (lookup ev ''eid'') Null), (''ts'', num (now E i)),
          (''vid'', vor (lookup ev ''vid'') Null), (''sid'', vor (lookup ev ''sid'') Null),
          (''p'', vor (lookup ev ''p'') Null),
          (''url'', vor (lookup ev ''url'') (vor (lookup ev ''pageUrl'') Null)), (''raw'', ev)]"
  using assms by (simp add: common_def getp_truthy)

lemma branch_of_no_discriminator:
  assumes "truthy ev" "lookup ev ''e'' = Undefined" "lookup ev ''event'' = Undefined"
  shows "branch_of ev = Some Fallback"
  using assms by (simp add: branch_of_def getp_truthy)



section \<open>The event normalizer of const.js\<close>






text \<open>
  C7, as the code has it. A record returned by the normalizer has no \<^verbatim>\<open>e\<close> and no
  \<^verbatim>\<open>event\<close> field, so normalizing it again takes the fallback branch: the event type
  becomes \<^verbatim>\<open>unknown\<close> and the payload is the whole record that was passed in.
\<close>

theorem renormalize_canonical:
  assumes "truthy ev" "typeof ev = ''object''" "parseSnowplowEvent E i ev enc = Some r"
  shows "\<exists>r'. parseSnowplowEvent E' j r enc' = Some r' \<and>
           getp r' ''eventType'' = Some (Str (U ''unknown'')) \<and> getp r' ''payload'' = Some r"
proof -
  from assms obtain kvs b where
    r: "r = mk_obj kvs" and
    ks: "fst ` set kvs = branch_keys b \<union> {''eid'', ''ts'', ''vid'', ''sid'', ''p'', ''url'', ''raw''}"
    by (rule parseSnowplowEvent_keys)
  have absent: "''e'' \<notin> fst ` set kvs" "''event'' \<notin> fst ` set kvs"
    "''dtm'' \<notin> fst ` set kvs" "''timestamp'' \<notin> fst ` set kvs"
    unfolding ks by (cases b; simp add: branch_keys_def)+
  have und: "lookup r ''e'' = Undefined" "lookup r ''event'' = Undefined"
    "lookup r ''dtm'' = Undefined" "lookup r ''timestamp'' = Undefined"
    unfolding r using absent by (simp_all add: lookup_absent)
  have t: "truthy r" "typeof r = ''object''" by (simp_all add: r)
  note cm = common_no_timestamps[OF t(1) und(3,4), of E' j]
  note br = branch_of_no_discriminator[OF t(1) und(1,2)]
  have "parseSnowplowEvent E' j r enc' =
          Some (mk_obj ((''eventType'', Str (U ''unknown'')) # (''payload'', r) #
             [(''eid'', vor (lookup r ''eid'') Null), (''ts'', num (now E' j)),
              (''vid'', vor (lookup r ''vid'') Null), (''sid'', vor (lookup r ''sid'') Null),
              (''p'', vor (lookup r ''p'') Null),
              (''url'', vor (lookup r ''url'') (vor (lookup r ''pageUrl'') Null)), (''raw'', r)]))"
    using t by (simp add: parseSnowplowEvent_def cm br fallback_event_eq und vor_def)
  then show ?thesis by (simp add: getp_mk_obj)
qed


theorem renormalize_canonical_witness:
  \<open>truthy (Obj [(U ''e'', Str (U ''click''))]) \<and> typeof (Obj [(U ''e'', Str (U ''click''))]) = ''object'' \<and>
   (\<exists>r r'. parseSnowplowEvent browser 0 (Obj [(U ''e'', Str (U ''click''))]) Undefined = Some r \<and>
      parseSnowplowEvent browser 1 r (Bool True) = Some r' \<and>
      getp r' ''eventType'' = Some (Str (U ''unknown'')) \<and> getp r' ''payload'' = Some r)\<close>
proof -
  let ?ev = "Obj [(U ''e'', Str (U ''click''))]"
  have t: "truthy ?ev" "typeof ?ev = ''object''" by simp_all
  have "parseSnowplowEvent browser 0 ?ev Undefined \<noteq> None" by (simp add: run)
  then obtain r where r: "parseSnowplowEvent browser 0 ?ev Undefined = Some r"
    by (cases "parseSnowplowEvent browser 0 ?ev Undefined") simp_all
  from renormalize_canonical[OF t r, of browser 1 "Bool True"] obtain r' where
    "parseSnowplowEvent browser 1 r (Bool True) = Some r'"
    "getp r' ''eventType'' = Some (Str (U ''unknown''))" "getp r' ''payload'' = Some r"
    by (elim exE conjE)
  with t r show ?thesis by (intro conjI exI[of _ r] exI[of _ r']) assumption+
qed

theorem idempotence_counterexample:
  \<open>field ''eventType'' (parseSnowplowEvent browser 0 (Obj [(U ''e'', Str (U ''click''))]) Undefined) = Some (Str (U ''click'')) \<and>
   field ''eventType'' (normalize_twice browser (Obj [(U ''e'', Str (U ''click''))])) = Some (Str (U ''unknown'')) \<and>
   field ''payload'' (parseSnowplowEvent browser 0 (Obj [(U ''e'', Str (U ''click''))]) Undefined) = Some (Obj [(U ''e'', Str (U ''click''))]) \<and>
   field ''payload'' (normalize_twice browser (Obj [(U ''e'', Str (U ''click''))])) = parseSnowplowEvent browser 0 (Obj [(U ''e'', Str (U ''click''))]) Undefined\<close>
  by (simp add: run)




section \<open>The batch parser of const.js\<close>

text \<open>
  C8, as the code has it. For a string input whose trimmed text neither parses as JSON
  (to anything but \<^verbatim>\<open>null\<close>) nor decodes from base64 to JSON, \<^verbatim>\<open>parseSync\<close> returns
  exactly one event with event type \<^verbatim>\<open>raw_text\<close>; its payload is the trimmed text, which
  is the input itself only when the input has no surrounding whitespace.
\<close>

theorem raw_text_fallback:
  assumes "tryParseJsonSafe (Str (trim s)) = Null" "tryDecodeBase64JsonSafe E (Str (trim s)) = Null"
  shows "parseSync E (Str s) enc = Some [raw_text (trim s)] \<and>
         getp (raw_text (trim s)) ''eventType'' = Some (Str (U ''raw_text'')) \<and>
         getp (raw_text (trim s)) ''payload'' = Some (Str (trim s))"
proof -
  have "resolve_text E (Str s) = Inl [raw_text (trim s)]"
    using assms by (simp add: resolve_text_def Let_def)
  then show ?thesis
    by (simp add: parseSync_def raw_text_def getp_mk_obj)
qed

theorem raw_text_fallback_witness:
  \<open>tryParseJsonSafe (Str (trim (U ''not-json-not-base64###''))) = Null \<and>
   tryDecodeBase64JsonSafe browser (Str (trim (U ''not-json-not-base64###''))) = Null \<and>
   parseSync browser (Str (U ''not-json-not-base64###'')) Undefined = Some [raw_text (U ''not-json-not-base64###'')] \<and>
   getp (raw_text (U ''not-json-not-base64###'')) ''payload'' = Some (Str (U ''not-json-not-base64###''))\<close>
proof -
  have tr: \<open>trim (U ''not-json-not-base64###'') = U ''not-json-not-base64###''\<close>
    by (simp add: trim_def is_trim_ws_def U_def)
  have a: \<open>tryParseJsonSafe (Str (trim (U ''not-json-not-base64###''))) = Null\<close>
    unfolding tr by (simp add: run)
  have b: \<open>tryDecodeBase64JsonSafe browser (Str (trim (U ''not-json-not-base64###''))) = Null\<close>
    unfolding tr by (simp add: run)
  from raw_text_fallback[OF a b, of Undefined] a b show ?thesis
    unfolding tr by simp
qed

theorem raw_text_not_verbatim:
  \<open>tryParseJsonSafe (Str (U '' ###'')) = Null \<and>
   tryDecodeBase64JsonSafe browser (Str (U '' ###'')) = Null \<and>
   field ''payload'' (map_option hd (parseSync browser (Str (U '' ###'')) Undefined)) = Some (Str (U ''###'')) \<and>
   Str (U ''###'') \<noteq> Str (U '' ###'')\<close>
  by (simp add: run)







end
